theory Spec2Isabelle
  imports Main "HOL-Library.AList"
begin

section \<open>JavaScript values\<close>

text \<open>
  The addon is JavaScript. Values are modelled by the datatype below. Numbers are the
  integral ones (record ids, HTTP status codes); objects are association lists of their own
  properties in insertion order; members inherited from a prototype are outside the model.
  The three error constructors are the error objects the code creates or meets:
  \<^verbatim>\<open>new Error(x)\<close>, an engine \<^verbatim>\<open>TypeError\<close>, and the host's \<^verbatim>\<open>new InvalidError(x)\<close>.
  A leading underscore of a source name is written \<open>u_\<close>, since a name cannot start
  with an underscore here.
\<close>

datatype jsval =
    JUndefined
  | JNull
  | JBool bool
  | JNum int
  | JStr string
  | JArr "jsval list"
  | JObj "(string \<times> jsval) list"
  | JError jsval
  | JTypeError
  | JInvalidError jsval

type_synonym js_object = "(string \<times> jsval) list"

text \<open>Truthiness, as \<^verbatim>\<open>if (x)\<close> and \<^verbatim>\<open>!x\<close> read a value.\<close>

fun js_truthy :: "jsval \<Rightarrow> bool" where
  "js_truthy JUndefined = False"
| "js_truthy JNull = False"
| "js_truthy (JBool b) = b"
| "js_truthy (JNum n) = (n \<noteq> 0)"
| "js_truthy (JStr s) = (s \<noteq> [])"
| "js_truthy (JArr vs) = True"
| "js_truthy (JObj kvs) = True"
| "js_truthy (JError v) = True"
| "js_truthy JTypeError = True"
| "js_truthy (JInvalidError v) = True"

text \<open>
  Reading a property \<^verbatim>\<open>x.k\<close>: a TypeError on \<^verbatim>\<open>undefined\<close> and \<^verbatim>\<open>null\<close>, the own
  property of an object, \<^verbatim>\<open>undefined\<close> otherwise.
\<close>

fun js_get :: "jsval \<Rightarrow> string \<Rightarrow> jsval + jsval" where
  "js_get JUndefined k = Inl JTypeError"
| "js_get JNull k = Inl JTypeError"
| "js_get (JObj kvs) k = Inr (case map_of kvs k of Some v \<Rightarrow> v | None \<Rightarrow> JUndefined)"
| "js_get v k = Inr JUndefined"


text \<open>The decimal numeral of a number, \<^verbatim>\<open>'' + n\<close>.\<close>

fun string_of_nat :: "nat \<Rightarrow> string" where
  "string_of_nat n =
     (if n < 10 then [''0123456789'' ! n]
      else string_of_nat (n div 10) @ [''0123456789'' ! (n mod 10)])"

declare string_of_nat.simps [simp del]

definition js_num_to_string :: "int \<Rightarrow> string" where
  "js_num_to_string i =
     (if i < 0 then CHR ''-'' # string_of_nat (nat (- i)) else string_of_nat (nat i))"

fun js_join :: "string list \<Rightarrow> string" where
  "js_join [] = []"
| "js_join [s] = s"
| "js_join (s # t # ss) = s @ '','' @ js_join (t # ss)"

text \<open>
  String conversion \<^verbatim>\<open>'' + x\<close>. Record ids are strings and numbers; the other cases
  follow the language for completeness (an error object prints its name only).
\<close>

fun js_to_string :: "jsval \<Rightarrow> string" where
  "js_to_string JUndefined = ''undefined''"
| "js_to_string JNull = ''null''"
| "js_to_string (JBool b) = (if b then ''true'' else ''false'')"
| "js_to_string (JNum n) = js_num_to_string n"
| "js_to_string (JStr s) = s"
| "js_to_string (JArr vs) =
     js_join (map (\<lambda>v. if v = JUndefined \<or> v = JNull then [] else js_to_string v) vs)"
| "js_to_string (JObj kvs) = ''[object Object]''"
| "js_to_string (JError v) = ''Error''"
| "js_to_string JTypeError = ''TypeError''"
| "js_to_string (JInvalidError v) = ''Error''"



text \<open>
  \<^verbatim>\<open>Math.round(n / d)\<close> for an integral \<open>n\<close> and a positive \<open>d\<close>: the nearest integer,
  a tie going up, that is \<open>\<lfloor>n / d + 1/2\<rfloor>\<close>.
\<close>

definition js_round_div :: "int \<Rightarrow> int \<Rightarrow> int" where
  "js_round_div n d = (2 * n + d) div (2 * d)"





section \<open>The base adapter (SailsBase)\<close>

text \<open>
  A promise is a cell of the adapter's promise table, named by its index. The fields of the
  adapter are those of the class; \<open>fetchRequests\<close> counts the calls of
  \<^verbatim>\<open>_fetchCSRFToken\<close> (each one a network request) and \<open>triggered\<close> lists the events
  the adapter has scheduled on itself.
\<close>

datatype promise_state = Pending | Fulfilled jsval | Rejected jsval

record sails_base =
  useCSRF :: bool
  csrfToken :: jsval
  csrfTokenLoadingPromise :: "nat option"
  promises :: "promise_state list"
  fetchRequests :: nat
  triggered :: "(string \<times> jsval list) list"

text \<open>
  \<^verbatim>\<open>checkCSRF(data)\<close>. The caller's object lives in a heap, so that the object returned
  can be compared with the object given. \<open>checkCSRF_fields\<close> is what the method does to
  the fields of the object; \<open>checkCSRF\<close> is the method on a reference.
\<close>

datatype jsref = RUndefined | RObj nat

type_synonym heap = "nat \<rightharpoonup> js_object"


definition checkCSRF :: "'a sails_base_scheme \<Rightarrow> heap \<Rightarrow> jsref \<Rightarrow> jsval + (jsref \<times> heap)" where
  "checkCSRF a h d =
     (if \<not> useCSRF a then Inr (d, h)
      else if \<not> js_truthy (csrfToken a) then Inl (JError (JStr ''CSRF Token not fetched yet.''))
      else (case d of
              RUndefined \<Rightarrow> Inl JTypeError
            | RObj r \<Rightarrow>
                (case h r of
                   None \<Rightarrow> Inl JTypeError
                 | Some obj \<Rightarrow> Inr (d, h(r \<mapsto> AList.update ''_csrf'' (csrfToken a) obj)))))"

text \<open>The adapter as its constructor leaves it.\<close>

definition new_sails_base :: sails_base where
  "new_sails_base =
     \<lparr>useCSRF = False, csrfToken = JNull, csrfTokenLoadingPromise = None,
      promises = [], fetchRequests = 0, triggered = []\<rparr>"

text \<open>
  How a promise is settled, and the three ways a handler is chained to one: \<^verbatim>\<open>.then(f)\<close>
  runs \<open>f\<close> on a resolution and passes a rejection on, \<^verbatim>\<open>.catch(f)\<close> runs \<open>f\<close> on a
  rejection and passes a resolution on, \<^verbatim>\<open>.finally(g)\<close> runs \<open>g\<close> and passes either on.
  What a handler returns resolves the chained promise, unless it returns a rejection.
\<close>

datatype settlement = Resolve jsval | Reject jsval

definition p_then ::
  "(jsval \<Rightarrow> 's \<Rightarrow> settlement \<times> 's) \<Rightarrow> settlement \<Rightarrow> 's \<Rightarrow> settlement \<times> 's" where
  "p_then f r s = (case r of Resolve v \<Rightarrow> f v s | Reject e \<Rightarrow> (Reject e, s))"

definition p_catch ::
  "(jsval \<Rightarrow> 's \<Rightarrow> settlement \<times> 's) \<Rightarrow> settlement \<Rightarrow> 's \<Rightarrow> settlement \<times> 's" where
  "p_catch f r s = (case r of Resolve v \<Rightarrow> (Resolve v, s) | Reject e \<Rightarrow> f e s)"

definition p_finally :: "('s \<Rightarrow> 's) \<Rightarrow> settlement \<Rightarrow> 's \<Rightarrow> settlement \<times> 's" where
  "p_finally g r s = (r, g s)"

fun settled :: "settlement \<Rightarrow> promise_state" where
  "settled (Resolve v) = Fulfilled v"
| "settled (Reject e) = Rejected e"

text \<open>
  \<^verbatim>\<open>fetchCSRFToken(force)\<close>, up to the promise it returns. A fetch that starts clears the
  token, calls \<^verbatim>\<open>_fetchCSRFToken\<close> and stores the new pending promise; a fetch in flight
  hands out the stored promise; otherwise the result is \<^verbatim>\<open>RSVP.resolve(null)\<close>, a new
  promise that is fulfilled already.
\<close>

definition fetchCSRFToken ::
  "jsval \<Rightarrow> 'a sails_base_scheme \<Rightarrow> nat \<times> 'a sails_base_scheme" where
  "fetchCSRFToken force a =
     (if useCSRF a \<and> (js_truthy force \<or> \<not> js_truthy (csrfToken a)) then
        (case csrfTokenLoadingPromise a of
           Some p \<Rightarrow> (p, a)
         | None \<Rightarrow>
             (length (promises a),
              a\<lparr>csrfToken := JNull,
                fetchRequests := Suc (fetchRequests a),
                promises := promises a @ [Pending],
                csrfTokenLoadingPromise := Some (length (promises a))\<rparr>))
      else (length (promises a), a\<lparr>promises := promises a @ [Fulfilled JNull]\<rparr>))"

text \<open>The three handlers \<^verbatim>\<open>fetchCSRFToken\<close> chains to the promise of \<^verbatim>\<open>_fetchCSRFToken\<close>.\<close>

definition fetch_on_token ::
  "jsval \<Rightarrow> 'a sails_base_scheme \<Rightarrow> settlement \<times> 'a sails_base_scheme" where
  "fetch_on_token token a =
     (if \<not> js_truthy token then (Reject (JStr ''Got an empty CSRF token from the server!''), a)
      else (Resolve token,
            a\<lparr>csrfToken := token,
              triggered := triggered a @ [(''didLoadCSRF'', [token])]\<rparr>))"

definition fetch_on_error ::
  "jsval \<Rightarrow> 'a sails_base_scheme \<Rightarrow> settlement \<times> 'a sails_base_scheme" where
  "fetch_on_error error a =
     (Resolve error, a\<lparr>triggered := triggered a @ [(''didLoadCSRF'', [JNull, error])]\<rparr>)"

definition fetch_reset :: "'a sails_base_scheme \<Rightarrow> 'a sails_base_scheme" where
  "fetch_reset a = a\<lparr>csrfTokenLoadingPromise := None\<rparr>"

text \<open>
  The promise of \<^verbatim>\<open>_fetchCSRFToken\<close> is settled with \<open>r\<close>: the chain
  \<^verbatim>\<open>.then(...).catch(...).finally(...)\<close> runs, and its last promise, the one
  \<^verbatim>\<open>fetchCSRFToken\<close> stored and handed out, is settled with the outcome. Without a fetch
  in flight there is no such chain.
\<close>

definition csrf_fetch_settled :: "settlement \<Rightarrow> 'a sails_base_scheme \<Rightarrow> 'a sails_base_scheme" where
  "csrf_fetch_settled r a =
     (case csrfTokenLoadingPromise a of
        None \<Rightarrow> a
      | Some p \<Rightarrow>
          (let (r1, a1) = p_then fetch_on_token r a;
               (r2, a2) = p_catch fetch_on_error r1 a1;
               (r3, a3) = p_finally fetch_reset r2 a2
           in a3\<lparr>promises := (promises a3)[p := settled r3]\<rparr>))"

text \<open>
  \<^verbatim>\<open>_fetchCSRFToken\<close> of the socket adapter and of the REST adapter: the transport's
  response chained with \<^verbatim>\<open>.then(tokenObject => tokenObject._csrf)\<close>.
\<close>

definition u_fetchCSRFToken :: "settlement \<Rightarrow> settlement" where
  "u_fetchCSRFToken r =
     fst (p_then (\<lambda>tokenObject u.
            (case js_get tokenObject ''_csrf'' of
               Inl e \<Rightarrow> (Reject e, u)
             | Inr t \<Rightarrow> (Resolve t, u))) r ())"

text \<open>Calls of \<^verbatim>\<open>fetchCSRFToken\<close> one after the other, with the promises they return.\<close>

fun fetch_calls :: "jsval list \<Rightarrow> 'a sails_base_scheme \<Rightarrow> nat list \<times> 'a sails_base_scheme" where
  "fetch_calls [] a = ([], a)"
| "fetch_calls (f # fs) a =
     (let (p, a') = fetchCSRFToken f a;
          (ps, a'') = fetch_calls fs a'
      in (p # ps, a''))"

section \<open>The socket service (SailsSocketService)\<close>

text \<open>
  The raw socket of the socket library: whether it is connected or connecting, and the
  listeners attached to it with \<^verbatim>\<open>addEventListener\<close>, which are the service's handlers
  of \<^verbatim>\<open>connect\<close> and \<^verbatim>\<open>disconnect\<close> and its message handler bound to an event name.
\<close>

datatype raw_listener = OnConnect | OnDisconnect | OnMessage string

record raw_socket =
  connected :: bool
  connecting :: bool
  attached :: "raw_listener list"

text \<open>
  A request waiting for the socket is the closure \<^verbatim>\<open>request\<close> passes to
  \<^verbatim>\<open>_connectedSocket\<close>; it is named by what it captured, the lower-cased method and the
  arguments. A task is a call the service has put on the run loop with \<^verbatim>\<open>next\<close> or
  \<^verbatim>\<open>later\<close>. A subscriber is a function the socket adapter has registered with
  \<^verbatim>\<open>on\<close>: one of its three record handlers, bound to the store and to a model type,
  which is named by its \<^verbatim>\<open>modelName\<close>.
\<close>

datatype sock_request = SockRequest string "jsval list"

datatype task =
    Load
  | HandleSocketReady
  | WaitObject
  | HandleSocketConnect
  | Callback sock_request jsval

datatype subscriber = RecordCreated string | RecordUpdated string | RecordDeleted string

text \<open>
  The service. \<open>sailsSocket\<close> is \<^verbatim>\<open>_sailsSocket\<close>: \<open>None\<close> is \<^verbatim>\<open>null\<close>, and
  \<open>Some None\<close> a socket whose \<^verbatim>\<open>_raw\<close> is not there yet. \<open>listeners\<close> is
  \<^verbatim>\<open>_listeners\<close>, each event with its \<^verbatim>\<open>isListening\<close> flag. \<open>alive\<close> is
  \<^verbatim>\<open>isAlive(this)\<close>. \<open>didConnectOnce\<close> says that the listener \<^verbatim>\<open>_connectedSocket\<close>
  adds with \<^verbatim>\<open>one('didConnect', ...)\<close> is registered, and \<open>subscribers\<close> are the
  listeners added with \<^verbatim>\<open>on\<close>. \<open>ioReady\<close> is the condition \<^verbatim>\<open>_load\<close> polls. The last
  five fields are the service's effects on its surroundings: the tasks on the run loop, the
  events it has triggered, the calls of \<^verbatim>\<open>io.sails.connect\<close>, the requests handed to the
  socket and the requests rejected before they reached it. The logging calls of the source
  (\<^verbatim>\<open>debug\<close>, \<^verbatim>\<open>warn\<close>, \<^verbatim>\<open>this.notice\<close>, \<^verbatim>\<open>logger.error\<close>) have no effect on this
  state and are left out everywhere.
\<close>

record service =
  alive :: bool
  sailsSocket :: "raw_socket option option"
  listeners :: "(string \<times> bool) list"
  isInitialized :: bool
  isConnected :: bool
  pendingOperationCount :: int
  waitingForSockets :: "sock_request list option"
  didConnectOnce :: bool
  subscribers :: "(string \<times> subscriber) list"
  ioReady :: bool
  tasks :: "task list"
  fired :: "string list"
  connects :: nat
  emitted :: "sock_request list"
  failed :: "(sock_request \<times> jsval) list"

text \<open>The service as its constructor leaves it.\<close>

definition new_service :: service where
  "new_service =
     \<lparr>alive = True, sailsSocket = None, listeners = [], isInitialized = False,
      isConnected = False, pendingOperationCount = 0, waitingForSockets = None,
      didConnectOnce = False, subscribers = [], ioReady = False, tasks = [], fired = [],
      connects = 0, emitted = [], failed = []\<rparr>"



text \<open>
  The JSON WebSocket response of the socket library, with its integral status code, and how
  the promise of \<^verbatim>\<open>request\<close> is settled.
\<close>

record jwr =
  statusCode :: int
  body :: jsval

datatype request_result = Resolved jsval | RejectedJwr jwr | RejectedWith jsval

text \<open>
  The callback \<^verbatim>\<open>(data, jwr) => ...\<close> that \<^verbatim>\<open>request\<close> appends to the arguments of the
  socket call: the pending count goes down, and the promise is resolved or rejected.
\<close>

definition request_response :: "jsval \<Rightarrow> jwr option \<Rightarrow> service \<Rightarrow> request_result \<times> service" where
  "request_response data j s =
     (let s' = s\<lparr>pendingOperationCount := pendingOperationCount s - 1\<rparr> in
      case j of
        None \<Rightarrow> (RejectedWith data, s')
      | Some w \<Rightarrow>
          if js_round_div (statusCode w) 100 \<noteq> 2 then (RejectedJwr w, s')
          else (Resolved data, s'))"

























section \<open>The store (NewStore)\<close>

text \<open>
  The store of the host framework, as far as the adapter's handlers use it: the records it
  has loaded, each under its model name and id with the value of its \<^verbatim>\<open>dirtyType\<close>
  (\<^verbatim>\<open>undefined\<close> for a record without local changes), and the calls of the host's own
  \<^verbatim>\<open>pushPayload\<close> with their arguments. \<open>pushSubscribes\<close> is \<^verbatim>\<open>_pushSubscribes\<close>.
\<close>

type_synonym record_key = "string \<times> string"

record store =
  records :: "(record_key \<times> jsval) list"
  pushSubscribes :: jsval
  pushed :: "jsval list list"

definition new_store :: store where
  "new_store = \<lparr>records = [], pushSubscribes = JUndefined, pushed = []\<rparr>"

text \<open>
  The host's \<^verbatim>\<open>peekRecord(modelName, id)\<close> finds a loaded record by its model name and
  its id as a string (no id for \<^verbatim>\<open>undefined\<close>, \<^verbatim>\<open>null\<close> and the empty string);
  \<^verbatim>\<open>record.unloadRecord()\<close> takes the record out of the store.
\<close>

definition peekRecord :: "store \<Rightarrow> string \<Rightarrow> jsval \<Rightarrow> (record_key \<times> jsval) option" where
  "peekRecord st modelName i =
     (if i = JUndefined \<or> i = JNull \<or> i = JStr [] then None
      else (case map_of (records st) (modelName, js_to_string i) of
              None \<Rightarrow> None
            | Some d \<Rightarrow> Some ((modelName, js_to_string i), d)))"

definition unloadRecord :: "record_key \<Rightarrow> store \<Rightarrow> store" where
  "unloadRecord k st = st\<lparr>records := AList.delete k (records st)\<rparr>"


section \<open>The socket adapter (SailsSocketAdapter)\<close>




text \<open>\<^verbatim>\<open>_handleSocketRecordDeleted(store, type, message)\<close>.\<close>

definition u_handleSocketRecordDeleted :: "string \<Rightarrow> jsval \<Rightarrow> store \<Rightarrow> jsval + store" where
  "u_handleSocketRecordDeleted modelName message st =
     (case js_get message ''id'' of
        Inl e \<Rightarrow> Inl e
      | Inr message_id \<Rightarrow>
          (case peekRecord st modelName message_id of
             None \<Rightarrow> Inr st
           | Some (k, dirtyType) \<Rightarrow>
               if dirtyType = JUndefined then Inr (unloadRecord k st) else Inr st))"




















section \<open>Errors of a request (SailsBase)\<close>












section \<open>Concrete surroundings\<close>








section \<open>Theorems\<close>

subsection \<open>Fetching the CSRF token\<close>

lemma fetchCSRFToken_in_flight:
  "useCSRF a \<Longrightarrow> csrfTokenLoadingPromise a = Some p \<Longrightarrow> \<not> js_truthy (csrfToken a) \<Longrightarrow>
   fetchCSRFToken f a = (p, a)"
  by (simp add: fetchCSRFToken_def)

lemma fetch_calls_in_flight:
  "useCSRF a \<Longrightarrow> csrfTokenLoadingPromise a = Some p \<Longrightarrow> \<not> js_truthy (csrfToken a) \<Longrightarrow>
   fetch_calls fs a = (replicate (length fs) p, a)"
  by (induction fs) (simp_all add: fetchCSRFToken_in_flight)

lemma fetchCSRFToken_starts:
  "useCSRF a \<Longrightarrow> csrfTokenLoadingPromise a = None \<Longrightarrow>
   js_truthy f \<or> \<not> js_truthy (csrfToken a) \<Longrightarrow>
   fetchCSRFToken f a =
     (length (promises a),
      a\<lparr>csrfToken := JNull, fetchRequests := Suc (fetchRequests a),
        promises := promises a @ [Pending],
        csrfTokenLoadingPromise := Some (length (promises a))\<rparr>)"
  by (simp add: fetchCSRFToken_def)

lemma fetchCSRFToken_cached:
  "js_truthy (csrfToken a) \<Longrightarrow> \<not> js_truthy f \<Longrightarrow>
   fetchCSRFToken f a =
     (length (promises a), a\<lparr>promises := promises a @ [Fulfilled JNull]\<rparr>)"
  by (simp add: fetchCSRFToken_def)

lemma fetch_calls_cached:
  "js_truthy (csrfToken a) \<Longrightarrow> \<forall>f \<in> set fs. \<not> js_truthy f \<Longrightarrow>
   fetchRequests (snd (fetch_calls fs a)) = fetchRequests a
   \<and> csrfToken (snd (fetch_calls fs a)) = csrfToken a
   \<and> csrfTokenLoadingPromise (snd (fetch_calls fs a)) = csrfTokenLoadingPromise a"
  by (induction fs arbitrary: a) (simp_all add: fetchCSRFToken_cached split_beta)

lemma csrf_fetch_settled_token:
  "csrfTokenLoadingPromise a = Some p \<Longrightarrow> js_truthy t \<Longrightarrow>
   csrf_fetch_settled (Resolve t) a =
     a\<lparr>csrfToken := t, triggered := triggered a @ [(''didLoadCSRF'', [t])],
       csrfTokenLoadingPromise := None, promises := (promises a)[p := Fulfilled t]\<rparr>"
  by (simp add: csrf_fetch_settled_def p_then_def p_catch_def p_finally_def
      fetch_on_token_def fetch_reset_def)

lemma csrf_fetch_settled_error:
  "csrfTokenLoadingPromise a = Some p \<Longrightarrow>
   csrf_fetch_settled (Reject e) a =
     a\<lparr>triggered := triggered a @ [(''didLoadCSRF'', [JNull, e])],
       csrfTokenLoadingPromise := None, promises := (promises a)[p := Fulfilled e]\<rparr>"
  by (simp add: csrf_fetch_settled_def p_then_def p_catch_def p_finally_def
      fetch_on_error_def fetch_reset_def)

text \<open>
  C1. On an adapter with \<open>useCSRF\<close> true, no cached token and no fetch in flight, the first
  of any calls of \<open>fetchCSRFToken\<close> (forced or not) starts the fetch, and every call made
  while it is in flight returns the same promise, which is pending: \<open>_fetchCSRFToken\<close> is
  called once. When that request resolves with a token, the shared promise is fulfilled
  with it, so every caller receives the same token.
\<close>

theorem concurrent_fetches_share_one_request:
  assumes "useCSRF a" "\<not> js_truthy (csrfToken a)" "csrfTokenLoadingPromise a = None"
  shows "\<exists>a'. fetch_calls (f # fs) a = (replicate (Suc (length fs)) (length (promises a)), a')
           \<and> fetchRequests a' = Suc (fetchRequests a)
           \<and> promises a' ! length (promises a) = Pending
           \<and> (js_truthy t \<longrightarrow>
                promises (csrf_fetch_settled (Resolve t) a') ! length (promises a) = Fulfilled t
              \<and> csrfToken (csrf_fetch_settled (Resolve t) a') = t
              \<and> fetchRequests (csrf_fetch_settled (Resolve t) a') = Suc (fetchRequests a))"
proof -
  define p where "p = length (promises a)"
  define a1 where "a1 = a\<lparr>csrfToken := JNull, fetchRequests := Suc (fetchRequests a),
                promises := promises a @ [Pending], csrfTokenLoadingPromise := Some p\<rparr>"
  have first: "fetchCSRFToken f a = (p, a1)"
    using assms by (simp add: fetchCSRFToken_starts p_def a1_def)
  have a1: "useCSRF a1" "csrfTokenLoadingPromise a1 = Some p" "\<not> js_truthy (csrfToken a1)"
    "fetchRequests a1 = Suc (fetchRequests a)" "promises a1 = promises a @ [Pending]"
    using assms by (simp_all add: a1_def)
  have rest: "fetch_calls fs a1 = (replicate (length fs) p, a1)"
    by (rule fetch_calls_in_flight [OF a1(1) a1(2) a1(3)])
  have calls: "fetch_calls (f # fs) a = (replicate (Suc (length fs)) p, a1)"
    by (simp add: first rest)
  have pend: "promises a1 ! p = Pending"
    by (simp add: a1 p_def)
  have fin: "promises (csrf_fetch_settled (Resolve t) a1) ! p = Fulfilled t
              \<and> csrfToken (csrf_fetch_settled (Resolve t) a1) = t
              \<and> fetchRequests (csrf_fetch_settled (Resolve t) a1) = Suc (fetchRequests a)"
    if "js_truthy t"
    using that by (simp add: csrf_fetch_settled_token [OF a1(2)] a1 p_def)
  show ?thesis
    using calls a1(4) pend fin unfolding p_def by blast
qed

theorem concurrent_fetches_share_one_request_witness:
  "\<exists>a'. fetch_calls [JUndefined, JBool True, JUndefined] (new_sails_base\<lparr>useCSRF := True\<rparr>)
           = ([0, 0, 0], a')
       \<and> fetchRequests a' = 1
       \<and> promises a' ! 0 = Pending
       \<and> promises (csrf_fetch_settled (Resolve (JStr ''abcdefgh012345'')) a') ! 0
           = Fulfilled (JStr ''abcdefgh012345'')"
proof -
  define a where "a = new_sails_base\<lparr>useCSRF := True\<rparr>"
  have a: "useCSRF a" "\<not> js_truthy (csrfToken a)" "csrfTokenLoadingPromise a = None"
    and n: "length (promises a) = 0" "fetchRequests a = 0"
    by (simp_all add: a_def new_sails_base_def)
  have t: "js_truthy (JStr ''abcdefgh012345'')"
    by simp
  obtain a' where
    "fetch_calls [JUndefined, JBool True, JUndefined] a
       = (replicate (Suc (length [JBool True, JUndefined])) (length (promises a)), a')"
    "fetchRequests a' = Suc (fetchRequests a)"
    "promises a' ! length (promises a) = Pending"
    "promises (csrf_fetch_settled (Resolve (JStr ''abcdefgh012345'')) a') ! length (promises a)
       = Fulfilled (JStr ''abcdefgh012345'')"
    using concurrent_fetches_share_one_request
      [OF a, of JUndefined "[JBool True, JUndefined]" "JStr ''abcdefgh012345''"] t
    by blast
  then show ?thesis
    unfolding a_def [symmetric] n by (intro exI [of _ a']) (simp add: numeral_3_eq_3)
qed

text \<open>
  C4. When the fetch in flight resolves with a token, the token is cached in
  \<open>csrfToken\<close>, and calls of \<open>fetchCSRFToken\<close> without the force flag, however many, issue
  no request and leave the cache as it is. A call with the force flag, or a call after the
  token has been cleared, issues a new request.
\<close>

theorem cached_token_is_not_fetched_again:
  assumes "useCSRF a" "csrfTokenLoadingPromise a = Some p" "js_truthy t"
  shows "csrfToken (csrf_fetch_settled (Resolve t) a) = t
       \<and> (\<forall>fs. (\<forall>f \<in> set fs. \<not> js_truthy f) \<longrightarrow>
             fetchRequests (snd (fetch_calls fs (csrf_fetch_settled (Resolve t) a)))
               = fetchRequests a
           \<and> csrfToken (snd (fetch_calls fs (csrf_fetch_settled (Resolve t) a))) = t)
       \<and> fetchRequests (snd (fetchCSRFToken (JBool True) (csrf_fetch_settled (Resolve t) a)))
           = Suc (fetchRequests a)
       \<and> fetchRequests
           (snd (fetchCSRFToken f ((csrf_fetch_settled (Resolve t) a)\<lparr>csrfToken := JNull\<rparr>)))
           = Suc (fetchRequests a)"
proof -
  define b where "b = csrf_fetch_settled (Resolve t) a"
  have b: "useCSRF b" "csrfToken b = t" "csrfTokenLoadingPromise b = None"
    "fetchRequests b = fetchRequests a"
    using assms by (simp_all add: b_def csrf_fetch_settled_token [OF assms(2) assms(3)])
  have cached: "fetchRequests (snd (fetch_calls fs b)) = fetchRequests a
      \<and> csrfToken (snd (fetch_calls fs b)) = t" if "\<forall>f \<in> set fs. \<not> js_truthy f" for fs
    using fetch_calls_cached [of b fs] that assms(3) b by simp
  have forced: "fetchRequests (snd (fetchCSRFToken (JBool True) b)) = Suc (fetchRequests a)"
    using b by (simp add: fetchCSRFToken_starts)
  have cleared: "fetchRequests (snd (fetchCSRFToken f (b\<lparr>csrfToken := JNull\<rparr>)))
      = Suc (fetchRequests a)"
    using b by (simp add: fetchCSRFToken_starts)
  show ?thesis
    using b(2) cached forced cleared unfolding b_def by blast
qed

theorem cached_token_is_not_fetched_again_witness:
  "csrfToken (csrf_fetch_settled (Resolve (JStr ''abcdefgh012345''))
      (snd (fetchCSRFToken JUndefined (new_sails_base\<lparr>useCSRF := True\<rparr>))))
     = JStr ''abcdefgh012345''
   \<and> fetchRequests (snd (fetch_calls [JUndefined, JBool False]
        (csrf_fetch_settled (Resolve (JStr ''abcdefgh012345''))
           (snd (fetchCSRFToken JUndefined (new_sails_base\<lparr>useCSRF := True\<rparr>)))))) = 1
   \<and> fetchRequests (snd (fetchCSRFToken (JBool True)
        (csrf_fetch_settled (Resolve (JStr ''abcdefgh012345''))
           (snd (fetchCSRFToken JUndefined (new_sails_base\<lparr>useCSRF := True\<rparr>)))))) = 2"
proof -
  define a where "a = snd (fetchCSRFToken JUndefined (new_sails_base\<lparr>useCSRF := True\<rparr>))"
  have a: "useCSRF a" "csrfTokenLoadingPromise a = Some 0" "fetchRequests a = 1"
    by (simp_all add: a_def new_sails_base_def fetchCSRFToken_def)
  have t: "js_truthy (JStr ''abcdefgh012345'')"
    by simp
  have nf: "\<forall>f \<in> set [JUndefined, JBool False]. \<not> js_truthy f"
    by simp
  show ?thesis
    using cached_token_is_not_fetched_again [OF a(1) a(2) t] nf a(3)
    unfolding a_def [symmetric] by (metis One_nat_def Suc_1)
qed

text \<open>
  C3. What the code does when the request of \<open>_fetchCSRFToken\<close> fails, on an adapter that
  has just started a fetch: the cached token stays cleared, the loading promise is reset,
  and the next call issues a second request; but the promise shared by the waiting callers
  is fulfilled with the error, it is not rejected, since the \<open>catch\<close> handler returns the
  error it was given.
\<close>

theorem failed_fetch_fulfils_the_shared_promise:
  "(let a1 = snd (fetchCSRFToken JUndefined (new_sails_base\<lparr>useCSRF := True\<rparr>));
        a2 = csrf_fetch_settled (Reject (JError (JStr ''offline''))) a1
    in (promises a1 ! 0, promises a2 ! 0, csrfToken a2, csrfTokenLoadingPromise a2,
        fetchRequests a2, fetchRequests (snd (fetchCSRFToken JUndefined a2))))
   = (Pending, Fulfilled (JError (JStr ''offline'')), JNull, None, 1, 2)"
  by (simp add: new_sails_base_def fetchCSRFToken_def csrf_fetch_settled_def p_then_def
      p_catch_def p_finally_def fetch_on_error_def fetch_reset_def Let_def)

subsection \<open>Subscriptions\<close>


















subsection \<open>Messages of the socket\<close>




















text \<open>
  C10. A destroyed message whose record is absent from the store, or has a \<open>dirtyType\<close>
  that is defined, leaves the store unchanged; and whenever \<open>_handleSocketRecordDeleted\<close>
  returns with a changed store, it has unloaded the record of the message's id, which was
  loaded and clean.
\<close>

theorem destroyed_message_unloads_only_clean_records:
  "(\<forall>i. js_get message ''id'' = Inr i
         \<and> (peekRecord st m i = None \<or> (\<exists>k d. peekRecord st m i = Some (k, d) \<and> d \<noteq> JUndefined))
       \<longrightarrow> u_handleSocketRecordDeleted m message st = Inr st)
   \<and> (\<forall>st'. u_handleSocketRecordDeleted m message st = Inr st' \<longrightarrow>
         st' = st \<or> (\<exists>i k. js_get message ''id'' = Inr i
                        \<and> peekRecord st m i = Some (k, JUndefined) \<and> st' = unloadRecord k st))"
  by (auto simp: u_handleSocketRecordDeleted_def split: sum.splits option.splits if_splits)

theorem destroyed_message_unloads_only_clean_records_witness:
  "u_handleSocketRecordDeleted ''user'' (JObj [(''verb'', JStr ''destroyed''), (''id'', JNum 7)])
     (new_store\<lparr>records := [((''user'', ''7''), JStr ''updated'')]\<rparr>)
   = Inr (new_store\<lparr>records := [((''user'', ''7''), JStr ''updated'')]\<rparr>)
   \<and> u_handleSocketRecordDeleted ''user'' (JObj [(''verb'', JStr ''destroyed''), (''id'', JNum 8)])
     (new_store\<lparr>records := [((''user'', ''7''), JStr ''updated'')]\<rparr>)
   = Inr (new_store\<lparr>records := [((''user'', ''7''), JStr ''updated'')]\<rparr>)"
proof -
  let ?st = "new_store\<lparr>records := [((''user'', ''7''), JStr ''updated'')]\<rparr>"
  let ?m = "\<lambda>n. JObj [(''verb'', JStr ''destroyed''), (''id'', JNum n)]"
  have a: "js_get (?m 7) ''id'' = Inr (JNum 7)
      \<and> (peekRecord ?st ''user'' (JNum 7) = None
          \<or> (\<exists>k d. peekRecord ?st ''user'' (JNum 7) = Some (k, d) \<and> d \<noteq> JUndefined))"
    by (simp add: peekRecord_def new_store_def js_num_to_string_def string_of_nat.simps)
  have b: "js_get (?m 8) ''id'' = Inr (JNum 8)
      \<and> (peekRecord ?st ''user'' (JNum 8) = None
          \<or> (\<exists>k d. peekRecord ?st ''user'' (JNum 8) = Some (k, d) \<and> d \<noteq> JUndefined))"
    by (simp add: peekRecord_def new_store_def js_num_to_string_def string_of_nat.simps)
  show ?thesis
    using destroyed_message_unloads_only_clean_records [of "?m 7" ?st "''user''"]
      destroyed_message_unloads_only_clean_records [of "?m 8" ?st "''user''"] a b by blast
qed


subsection \<open>Errors of a request\<close>






subsection \<open>checkCSRF\<close>

text \<open>
  C8. For every data object, \<open>checkCSRF\<close> throws exactly when \<open>useCSRF\<close> is true and no
  token is cached (the cached value is falsy). Otherwise it returns the reference it was
  given; with \<open>useCSRF\<close> false the heap is untouched, and with \<open>useCSRF\<close> true the only
  change is that the object's \<open>_csrf\<close> field holds the cached token.
\<close>

theorem checkCSRF_throws_iff_no_token:
  assumes "h r = Some obj"
  shows "((\<exists>e. checkCSRF a h (RObj r) = Inl e) \<longleftrightarrow> (useCSRF a \<and> \<not> js_truthy (csrfToken a)))
       \<and> (\<not> useCSRF a \<longrightarrow> checkCSRF a h (RObj r) = Inr (RObj r, h))
       \<and> (useCSRF a \<and> js_truthy (csrfToken a) \<longrightarrow>
            checkCSRF a h (RObj r) =
              Inr (RObj r, h(r \<mapsto> AList.update ''_csrf'' (csrfToken a) obj))
            \<and> map_of (AList.update ''_csrf'' (csrfToken a) obj) ''_csrf'' = Some (csrfToken a)
            \<and> (\<forall>k. k \<noteq> ''_csrf'' \<longrightarrow>
                  map_of (AList.update ''_csrf'' (csrfToken a) obj) k = map_of obj k))"
  using assms by (auto simp: checkCSRF_def update_conv')

theorem checkCSRF_throws_iff_no_token_witness:
  "checkCSRF \<lparr>useCSRF = True, csrfToken = JStr ''abcdefgh012345'', csrfTokenLoadingPromise = None,
       promises = [], fetchRequests = 0, triggered = []\<rparr>
     [0 \<mapsto> [(''name'', JStr ''x'')]] (RObj 0)
   = Inr (RObj 0, [0 \<mapsto> [(''name'', JStr ''x''), (''_csrf'', JStr ''abcdefgh012345'')]])"
  using checkCSRF_throws_iff_no_token
    [of "[0 \<mapsto> [(''name'', JStr ''x'')]]" 0 "[(''name'', JStr ''x'')]"
        "\<lparr>useCSRF = True, csrfToken = JStr ''abcdefgh012345'', csrfTokenLoadingPromise = None,
          promises = [], fetchRequests = 0, triggered = []\<rparr>"]
  by simp

subsection \<open>The status code of a socket response\<close>

text \<open>
  C9. The promise of a socket request is resolved with the response data exactly when the
  JSON WebSocket response exists and \<^verbatim>\<open>Math.round(jwr.statusCode / 100)\<close> is 2. So the
  status codes 150 to 249 resolve it, the codes 250 to 299 reject it with the response, and
  a missing response rejects it with the data.
\<close>

theorem request_resolves_iff_status_rounds_to_2:
  "(fst (request_response data j s) = Resolved data
      \<longleftrightarrow> (\<exists>w. j = Some w \<and> js_round_div (statusCode w) 100 = 2))
   \<and> (\<forall>w. j = Some w \<and> 150 \<le> statusCode w \<and> statusCode w \<le> 249
          \<longrightarrow> fst (request_response data j s) = Resolved data)
   \<and> (\<forall>w. j = Some w \<and> 250 \<le> statusCode w \<and> statusCode w \<le> 299
          \<longrightarrow> fst (request_response data j s) = RejectedJwr w)
   \<and> (j = None \<longrightarrow> fst (request_response data j s) = RejectedWith data)"
  by (auto simp: request_response_def js_round_div_def Let_def split: option.splits)

theorem request_resolves_iff_status_rounds_to_2_witness:
  "fst (request_response (JStr ''ok'') (Some \<lparr>statusCode = 249, body = JNull\<rparr>) new_service)
     = Resolved (JStr ''ok'')
   \<and> fst (request_response (JStr ''ok'') (Some \<lparr>statusCode = 250, body = JNull\<rparr>) new_service)
     = RejectedJwr \<lparr>statusCode = 250, body = JNull\<rparr>
   \<and> fst (request_response (JStr ''ok'') None new_service) = RejectedWith (JStr ''ok'')"
  using request_resolves_iff_status_rounds_to_2
      [of "JStr ''ok''" "Some \<lparr>statusCode = 249, body = JNull\<rparr>" new_service]
    request_resolves_iff_status_rounds_to_2
      [of "JStr ''ok''" "Some \<lparr>statusCode = 250, body = JNull\<rparr>" new_service]
    request_resolves_iff_status_rounds_to_2 [of "JStr ''ok''" None new_service]
  by simp

subsection \<open>The life of the socket service\<close>











































































end
